theory Spec2Isabelle
  imports Main "HOL-Library.AList"
begin

section \<open>JavaScript values\<close>

text \<open>
  The values the checks of \<^verbatim>\<open>src/typso.js\<close> receive. Numbers are the integers and
  \<open>NaN\<close> (fractions, infinities and the negative zero are left out; an integer stands
  for itself only where a double holds it exactly); arrays are dense;
  a function value is an identifier whose behaviour the host supplies; an object is a
  prototype identifier and the association list of its own string-keyed properties, in
  the order of \<^verbatim>\<open>Object.keys\<close>. Symbols and bigints are left out.
\<close>

datatype jsval =
    Undefined
  | Null
  | Bool bool
  | Num int
  | NaN
  | Str string
  | Fun nat
  | Arr "jsval list"
  | Obj nat "(string \<times> jsval) list"

text \<open>
  What a \<^verbatim>\<open>throw\<close> carries: the \<^verbatim>\<open>new Error(message)\<close> of \<^verbatim>\<open>_throwError\<close>, a
  \<^verbatim>\<open>TypeError\<close> raised by the runtime itself (a property read on \<^verbatim>\<open>null\<close>, a call of
  something that is no function, an \<^verbatim>\<open>instanceof\<close> whose right-hand side is not
  callable), or whatever user code threw.
\<close>

datatype thrown =
    Error string
  | RuntimeTypeError
  | UserThrown jsval

text \<open>
  The behaviour of the runtime that the values above do not determine: calls of function
  values (taken to be pure), properties of functions and properties inherited from a
  prototype, the prototype-chain walk of \<^verbatim>\<open>instanceof\<close>, the conversion of objects to
  primitives and to strings, the parsing of a string as a number, the text of a number
  beyond the safe integers, and a \<^verbatim>\<open>forEach\<close> method that user code put on a value that
  is no array.
\<close>

type_synonym result = "string list \<times> thrown option"

record host =
  call :: "nat \<Rightarrow> jsval \<Rightarrow> thrown + jsval"
  fun_prop :: "nat \<Rightarrow> string \<Rightarrow> jsval"
  proto_get :: "nat \<Rightarrow> string \<Rightarrow> jsval"
  has_instance :: "nat \<Rightarrow> jsval \<Rightarrow> thrown + bool"
  obj_to_primitive :: "jsval \<Rightarrow> thrown + jsval"
  obj_to_string :: "jsval \<Rightarrow> thrown + string"
  string_to_number :: "string \<Rightarrow> jsval"
  big_number_to_string :: "int \<Rightarrow> string"
  foreign_forEach :: "nat \<Rightarrow> jsval \<Rightarrow> (jsval \<Rightarrow> result) \<Rightarrow> result"

text \<open>Prototype identifiers of the built-in wrappers, and the \<^verbatim>\<open>Date\<close> constructor.\<close>

definition Object_proto :: nat where "Object_proto = 0"
definition String_proto :: nat where "String_proto = 1"
definition Number_proto :: nat where "Number_proto = 2"
definition Boolean_proto :: nat where "Boolean_proto = 3"
definition Array_proto :: nat where "Array_proto = 4"
definition Date_ctor :: nat where "Date_ctor = 5"

subsection \<open>Operators of the language\<close>

fun typeof :: "jsval \<Rightarrow> string" where
  "typeof Undefined = ''undefined''"
| "typeof Null = ''object''"
| "typeof (Bool b) = ''boolean''"
| "typeof (Num n) = ''number''"
| "typeof NaN = ''number''"
| "typeof (Str s) = ''string''"
| "typeof (Fun f) = ''function''"
| "typeof (Arr xs) = ''object''"
| "typeof (Obj c ps) = ''object''"

fun isArray :: "jsval \<Rightarrow> bool" where
  "isArray (Arr xs) = True"
| "isArray v = False"

text \<open>\<^verbatim>\<open>ToBoolean\<close>: the falsy values are the ones listed.\<close>

fun truthy :: "jsval \<Rightarrow> bool" where
  "truthy Undefined = False"
| "truthy Null = False"
| "truthy (Bool b) = b"
| "truthy (Num n) = (n \<noteq> 0)"
| "truthy NaN = False"
| "truthy (Str s) = (s \<noteq> [])"
| "truthy v = True"

fun is_primitive :: "jsval \<Rightarrow> bool" where
  "is_primitive (Fun f) = False"
| "is_primitive (Arr xs) = False"
| "is_primitive (Obj c ps) = False"
| "is_primitive v = True"

text \<open>Decimal digits of a number, for template literals.\<close>

definition digit_char :: "nat \<Rightarrow> char" where
  "digit_char d = ''0123456789'' ! d"

function show_nat :: "nat \<Rightarrow> string" where
  "show_nat n = (if n < 10 then [digit_char n] else show_nat (n div 10) @ [digit_char (n mod 10)])"
  by pat_completeness auto
termination
  by (relation "measure id") auto

definition show_int :: "int \<Rightarrow> string" where
  "show_int i = (if i < 0 then CHR ''-'' # show_nat (nat (- i)) else show_nat (nat i))"

text \<open>
  An array index is the canonical decimal form of a natural number: digits only, and no
  leading zero.
\<close>

definition is_digit :: "char \<Rightarrow> bool" where
  "is_digit ch = (ch \<in> set ''0123456789'')"

fun parse_nat :: "nat \<Rightarrow> string \<Rightarrow> nat" where
  "parse_nat acc [] = acc"
| "parse_nat acc (ch # cs) = parse_nat (10 * acc + (of_char ch - 48)) cs"

definition array_index :: "string \<Rightarrow> nat option" where
  "array_index key =
     (if key \<noteq> [] \<and> list_all is_digit key \<and> (key = ''0'' \<or> hd key \<noteq> CHR ''0'')
      then Some (parse_nat 0 key) else None)"

definition own_get :: "(string \<times> jsval) list \<Rightarrow> string \<Rightarrow> jsval option" where
  "own_get ps key = map_of ps key"

text \<open>A property read on an object: the own property, else what the prototype gives.\<close>

definition obj_get :: "host \<Rightarrow> nat \<Rightarrow> (string \<times> jsval) list \<Rightarrow> string \<Rightarrow> jsval" where
  "obj_get h c ps key = (case own_get ps key of Some v \<Rightarrow> v | None \<Rightarrow> proto_get h c key)"

text \<open>
  \<^verbatim>\<open>v[key]\<close>: a \<^verbatim>\<open>TypeError\<close> on \<^verbatim>\<open>null\<close> and \<^verbatim>\<open>undefined\<close>; the length and the
  elements of strings and arrays; the own properties of an object; otherwise what the
  prototype gives.
\<close>

fun get_prop :: "host \<Rightarrow> jsval \<Rightarrow> string \<Rightarrow> thrown + jsval" where
  "get_prop h Undefined key = Inl RuntimeTypeError"
| "get_prop h Null key = Inl RuntimeTypeError"
| "get_prop h (Bool b) key = Inr (proto_get h Boolean_proto key)"
| "get_prop h (Num n) key = Inr (proto_get h Number_proto key)"
| "get_prop h NaN key = Inr (proto_get h Number_proto key)"
| "get_prop h (Str s) key =
     Inr (if key = ''length'' then Num (int (length s))
          else case array_index key of
                 Some i \<Rightarrow> if i < length s then Str [s ! i] else proto_get h String_proto key
               | None \<Rightarrow> proto_get h String_proto key)"
| "get_prop h (Fun f) key = Inr (fun_prop h f key)"
| "get_prop h (Arr xs) key =
     Inr (if key = ''length'' then Num (int (length xs))
          else case array_index key of
                 Some i \<Rightarrow> if i < length xs then xs ! i else proto_get h Array_proto key
               | None \<Rightarrow> proto_get h Array_proto key)"
| "get_prop h (Obj c ps) key = Inr (obj_get h c ps key)"

text \<open>\<^verbatim>\<open>xs[i]\<close> on an array literal: \<^verbatim>\<open>undefined\<close> past the end.\<close>

definition arr_at :: "jsval list \<Rightarrow> nat \<Rightarrow> jsval" where
  "arr_at xs i = (if i < length xs then xs ! i else Undefined)"

text \<open>
  \<^verbatim>\<open>v instanceof c\<close>: a \<^verbatim>\<open>TypeError\<close> unless \<open>c\<close> is callable; for a function the
  host walks the prototype chain.
\<close>

fun instanceof :: "host \<Rightarrow> jsval \<Rightarrow> jsval \<Rightarrow> thrown + bool" where
  "instanceof h v (Fun f) = has_instance h f v"
| "instanceof h v c = Inl RuntimeTypeError"

text \<open>\<^verbatim>\<open>f(v)\<close>: a \<^verbatim>\<open>TypeError\<close> unless \<open>f\<close> is a function.\<close>

fun call_value :: "host \<Rightarrow> jsval \<Rightarrow> jsval \<Rightarrow> thrown + jsval" where
  "call_value h (Fun f) v = call h f v"
| "call_value h g v = Inl RuntimeTypeError"

text \<open>
  The text of a number: the decimal digits of a safe integer (at most \<open>2\<^sup>5\<^sup>3 - 1\<close> in
  absolute value); beyond that the runtime rounds the digits and, from \<open>10\<^sup>2\<^sup>1\<close> on, prints
  an exponent, which is left to the host.
\<close>

definition safe_integer :: "int \<Rightarrow> bool" where
  "safe_integer n = (- 9007199254740991 \<le> n \<and> n \<le> 9007199254740991)"

definition number_to_string :: "host \<Rightarrow> int \<Rightarrow> string" where
  "number_to_string h n = (if safe_integer n then show_int n else big_number_to_string h n)"

text \<open>\<^verbatim>\<open>ToString\<close>, as a template literal applies it.\<close>

fun to_string :: "host \<Rightarrow> jsval \<Rightarrow> thrown + string" where
  "to_string h Undefined = Inr ''undefined''"
| "to_string h Null = Inr ''null''"
| "to_string h (Bool b) = Inr (if b then ''true'' else ''false'')"
| "to_string h (Num n) = Inr (number_to_string h n)"
| "to_string h NaN = Inr ''NaN''"
| "to_string h (Str s) = Inr s"
| "to_string h v = obj_to_string h v"

text \<open>\<^verbatim>\<open>ToPrimitive\<close> and \<^verbatim>\<open>ToNumber\<close> (\<open>None\<close> is \<open>NaN\<close>).\<close>

definition to_primitive :: "host \<Rightarrow> jsval \<Rightarrow> thrown + jsval" where
  "to_primitive h v = (if is_primitive v then Inr v else obj_to_primitive h v)"

fun num_of :: "jsval \<Rightarrow> int option" where
  "num_of (Num n) = Some n"
| "num_of v = None"

fun to_number :: "host \<Rightarrow> jsval \<Rightarrow> int option" where
  "to_number h Undefined = None"
| "to_number h Null = Some 0"
| "to_number h (Bool b) = Some (if b then 1 else 0)"
| "to_number h (Num n) = Some n"
| "to_number h NaN = None"
| "to_number h (Str s) = num_of (string_to_number h s)"
| "to_number h v = None"

text \<open>Strings compare by code units, lexicographically.\<close>

fun str_less :: "string \<Rightarrow> string \<Rightarrow> bool" where
  "str_less [] [] = False"
| "str_less [] (y # ys) = True"
| "str_less (x # xs) [] = False"
| "str_less (x # xs) (y # ys) =
     (if (of_char x :: nat) < of_char y then True
      else if (of_char y :: nat) < of_char x then False
      else str_less xs ys)"

text \<open>\<open>x < y\<close> on primitives: two strings as strings, anything else as numbers.\<close>

fun prim_less :: "host \<Rightarrow> jsval \<Rightarrow> jsval \<Rightarrow> bool" where
  "prim_less h (Str s) (Str t) = str_less s t"
| "prim_less h x y =
     (case (to_number h x, to_number h y) of
        (Some a, Some b) \<Rightarrow> a < b
      | _ \<Rightarrow> False)"

text \<open>
  \<^verbatim>\<open>a < b\<close> and \<^verbatim>\<open>a > b\<close>: both convert the left operand first, and an exception of
  a conversion propagates.
\<close>

definition js_lt :: "host \<Rightarrow> jsval \<Rightarrow> jsval \<Rightarrow> thrown + bool" where
  "js_lt h a b =
     (case to_primitive h a of
        Inl e \<Rightarrow> Inl e
      | Inr pa \<Rightarrow> (case to_primitive h b of
                    Inl e \<Rightarrow> Inl e
                  | Inr pb \<Rightarrow> Inr (prim_less h pa pb)))"

definition js_gt :: "host \<Rightarrow> jsval \<Rightarrow> jsval \<Rightarrow> thrown + bool" where
  "js_gt h a b =
     (case to_primitive h a of
        Inl e \<Rightarrow> Inl e
      | Inr pa \<Rightarrow> (case to_primitive h b of
                    Inl e \<Rightarrow> Inl e
                  | Inr pb \<Rightarrow> Inr (prim_less h pb pa)))"

subsection \<open>Statements: what was logged, what was thrown\<close>

text \<open>
  A statement yields the lines it sent to \<^verbatim>\<open>console.warn\<close>, in order, and the
  exception it raised, if any. \<open>then_do\<close> is the semicolon: the second statement runs
  only when the first returned. \<open>eval_then\<close> evaluates an expression that may throw.
\<close>

definition ok :: result where
  "ok = ([], None)"

definition then_do :: "result \<Rightarrow> result \<Rightarrow> result" where
  "then_do r s = (case snd r of Some e \<Rightarrow> r | None \<Rightarrow> (fst r @ fst s, snd s))"

definition eval_then :: "thrown + 'a \<Rightarrow> ('a \<Rightarrow> result) \<Rightarrow> result" where
  "eval_then x k = (case x of Inl e \<Rightarrow> ([], Some e) | Inr v \<Rightarrow> k v)"

text \<open>\<^verbatim>\<open>xs.forEach(cb)\<close> on the elements of an array.\<close>

fun forEach_list :: "('a \<Rightarrow> result) \<Rightarrow> 'a list \<Rightarrow> result" where
  "forEach_list cb [] = ok"
| "forEach_list cb (x # xs) = then_do (cb x) (forEach_list cb xs)"

text \<open>
  \<^verbatim>\<open>v.forEach(cb)\<close> on any value: the built-in on an array; otherwise the property
  \<^verbatim>\<open>forEach\<close> is read and called, which is a \<^verbatim>\<open>TypeError\<close> unless user code put a
  function there.
\<close>

definition forEach :: "host \<Rightarrow> jsval \<Rightarrow> (jsval \<Rightarrow> result) \<Rightarrow> result" where
  "forEach h v cb =
     (case v of
        Arr xs \<Rightarrow> forEach_list cb xs
      | _ \<Rightarrow> eval_then (get_prop h v ''forEach'')
               (\<lambda>m. case m of
                       Fun f \<Rightarrow> foreign_forEach h f v cb
                     | _ \<Rightarrow> ([], Some RuntimeTypeError)))"

section \<open>The validation engine of \<^verbatim>\<open>src/typso.js\<close>\<close>

subsection \<open>The mode flags and their setters\<close>

text \<open>
  The static fields \<^verbatim>\<open>isStrict\<close> and \<^verbatim>\<open>logWarnings\<close> of the class. The setters take
  a boolean; \<open>None\<close> is a call with no argument, which the default parameter replaces.
\<close>

record mode =
  isStrict :: bool
  logWarnings :: bool

definition initial_mode :: mode where
  "initial_mode = \<lparr>isStrict = True, logWarnings = False\<rparr>"

definition enforceStrictMode :: "bool option \<Rightarrow> mode \<Rightarrow> mode" where
  "enforceStrictMode strict m =
     m\<lparr>isStrict := (case strict of None \<Rightarrow> True | Some b \<Rightarrow> b)\<rparr>"

definition enableWarnings :: "bool option \<Rightarrow> mode \<Rightarrow> mode" where
  "enableWarnings enable m =
     m\<lparr>logWarnings := (case enable of None \<Rightarrow> False | Some b \<Rightarrow> b)\<rparr>"

subsection \<open>Throw or warn\<close>

text \<open>\<^verbatim>\<open>_throwError\<close> (lines 87 to 93).\<close>

definition throwError :: "mode \<Rightarrow> string \<Rightarrow> result" where
  "throwError m message =
     (if logWarnings m then ([message], None) else ([], Some (Error message)))"

text \<open>
  \<^verbatim>\<open>customMessage || `...`\<close>: a custom message is a string or \<^verbatim>\<open>null\<close> (\<open>None\<close>);
  the empty string is falsy; the template is evaluated only when it is needed, and its
  conversions may throw.
\<close>

definition or_else :: "string option \<Rightarrow> thrown + string \<Rightarrow> thrown + string" where
  "or_else customMessage dflt =
     (case customMessage of
        Some s \<Rightarrow> if s \<noteq> [] then Inr s else dflt
      | None \<Rightarrow> dflt)"

definition bind_thrown :: "thrown + 'a \<Rightarrow> ('a \<Rightarrow> thrown + 'b) \<Rightarrow> thrown + 'b" where
  "bind_thrown x k = (case x of Inl e \<Rightarrow> Inl e | Inr v \<Rightarrow> k v)"

fun join :: "string \<Rightarrow> string list \<Rightarrow> string" where
  "join sep [] = []"
| "join sep [x] = x"
| "join sep (x # y # ys) = x @ sep @ join sep (y # ys)"

subsection \<open>The checks\<close>

text \<open>\<^verbatim>\<open>checkType\<close> (lines 8 to 13). The expected type is any value: \<^verbatim>\<open>!==\<close> compares
  it with the string that \<^verbatim>\<open>typeof\<close> gives.\<close>

definition checkType :: "host \<Rightarrow> mode \<Rightarrow> jsval \<Rightarrow> jsval \<Rightarrow> string option \<Rightarrow> result" where
  "checkType h m variable type customMessage =
     (if Str (typeof variable) \<noteq> type then
        eval_then
          (or_else customMessage
             (bind_thrown (to_string h type) (\<lambda>t.
                Inr (''TypeError: Expected '' @ t @ '' but received '' @ typeof variable))))
          (\<lambda>message. throwError m message)
      else ok)"

text \<open>\<^verbatim>\<open>checkInstance\<close> (lines 15 to 20).\<close>

definition checkInstance :: "host \<Rightarrow> mode \<Rightarrow> jsval \<Rightarrow> jsval \<Rightarrow> string option \<Rightarrow> result" where
  "checkInstance h m variable instance customMessage =
     eval_then (instanceof h variable instance) (\<lambda>is_inst.
       if \<not> is_inst then
         eval_then
           (or_else customMessage
              (bind_thrown (get_prop h instance ''name'') (\<lambda>n.
               bind_thrown (to_string h n) (\<lambda>s.
                 Inr (''TypeError: Expected instance of '' @ s)))))
           (\<lambda>message. throwError m message)
       else ok)"

text \<open>\<^verbatim>\<open>checkArray\<close> (lines 23 to 28).\<close>

definition checkArray :: "host \<Rightarrow> mode \<Rightarrow> jsval \<Rightarrow> jsval \<Rightarrow> string option \<Rightarrow> result" where
  "checkArray h m variable elementType customMessage =
     then_do
       (if \<not> isArray variable then throwError m ''TypeError: Expected an array'' else ok)
       (forEach h variable (\<lambda>item. checkType h m item elementType customMessage))"

text \<open>\<^verbatim>\<open>checkUnion\<close> (lines 31 to 36), on an array of kind names.\<close>

definition checkUnion :: "mode \<Rightarrow> jsval \<Rightarrow> string list \<Rightarrow> string option \<Rightarrow> result" where
  "checkUnion m variable types customMessage =
     (if typeof variable \<notin> set types then
        eval_then
          (or_else customMessage
             (Inr (''TypeError: Expected one of ['' @ join '', '' types @ ''] but received ''
                   @ typeof variable)))
          (\<lambda>message. throwError m message)
      else ok)"

text \<open>\<^verbatim>\<open>checkDate\<close> (lines 51 to 55).\<close>

definition checkDate :: "host \<Rightarrow> mode \<Rightarrow> jsval \<Rightarrow> result" where
  "checkDate h m variable =
     eval_then (instanceof h variable (Fun Date_ctor)) (\<lambda>is_date.
       if \<not> is_date then throwError m ''TypeError: Expected a Date'' else ok)"

text \<open>\<^verbatim>\<open>checkBoolean\<close> (lines 57 to 59).\<close>

definition checkBoolean :: "host \<Rightarrow> mode \<Rightarrow> jsval \<Rightarrow> result" where
  "checkBoolean h m variable = checkType h m variable (Str ''boolean'') None"

text \<open>\<^verbatim>\<open>checkCustom\<close> (lines 62 to 67).\<close>

definition checkCustom :: "host \<Rightarrow> mode \<Rightarrow> jsval \<Rightarrow> jsval \<Rightarrow> string option \<Rightarrow> result" where
  "checkCustom h m variable validationFunc customMessage =
     eval_then (call_value h validationFunc variable) (\<lambda>r.
       if \<not> truthy r then
         eval_then (or_else customMessage (Inr ''ValidationError: Custom validation failed''))
           (\<lambda>message. throwError m message)
       else ok)"

text \<open>\<^verbatim>\<open>checkNotNaN\<close> (lines 70 to 74).\<close>

definition checkNotNaN :: "mode \<Rightarrow> jsval \<Rightarrow> result" where
  "checkNotNaN m variable =
     (if variable = NaN then throwError m ''TypeError: Value should not be NaN'' else ok)"

text \<open>\<^verbatim>\<open>_checkSchemaField\<close> (lines 96 to 106).\<close>

fun elem :: "jsval \<Rightarrow> nat \<Rightarrow> jsval" where
  "elem (Arr xs) i = arr_at xs i"
| "elem v i = Undefined"

definition checkSchemaField :: "host \<Rightarrow> mode \<Rightarrow> jsval \<Rightarrow> jsval \<Rightarrow> result" where
  "checkSchemaField h m val expectedType =
     (if typeof expectedType = ''string'' then
        checkType h m val expectedType None
      else if isArray expectedType \<and> elem expectedType 0 = Str ''array'' then
        checkArray h m val (elem expectedType 1) None
      else if typeof expectedType = ''function'' then
        checkCustom h m val expectedType None
      else
        checkInstance h m val expectedType None)"

text \<open>
  \<^verbatim>\<open>checkObject\<close> (lines 39 to 48). The schema is a plain object: the association
  list of its own properties, \<^verbatim>\<open>Object.keys\<close> its keys in order, \<^verbatim>\<open>schema[key]\<close> a
  lookup.
\<close>

definition schema_at :: "(string \<times> jsval) list \<Rightarrow> string \<Rightarrow> jsval" where
  "schema_at schema key = (case own_get schema key of Some d \<Rightarrow> d | None \<Rightarrow> Undefined)"

definition checkObject :: "host \<Rightarrow> mode \<Rightarrow> jsval \<Rightarrow> (string \<times> jsval) list \<Rightarrow> result" where
  "checkObject h m variable schema =
     then_do
       (if typeof variable \<noteq> ''object'' \<or> isArray variable
        then throwError m ''TypeError: Expected an object'' else ok)
       (forEach_list
          (\<lambda>key. let expectedType = schema_at schema key in
                  eval_then (get_prop h variable key) (\<lambda>val.
                    checkSchemaField h m val expectedType))
          (map fst schema))"

text \<open>\<^verbatim>\<open>Typso.checkRange\<close> (lines 169 to 173).\<close>

definition range_message :: "host \<Rightarrow> jsval \<Rightarrow> jsval \<Rightarrow> thrown + string" where
  "range_message h min_v max_v =
     bind_thrown (to_string h min_v) (\<lambda>a.
     bind_thrown (to_string h max_v) (\<lambda>b.
       Inr (''RangeError: Value should be between '' @ a @ '' and '' @ b)))"

definition checkRange :: "host \<Rightarrow> mode \<Rightarrow> jsval \<Rightarrow> jsval \<Rightarrow> jsval \<Rightarrow> result" where
  "checkRange h m val min_v max_v =
     eval_then (js_lt h val min_v) (\<lambda>below.
     eval_then (if below then Inr True else js_gt h val max_v) (\<lambda>outside.
       if outside then
         eval_then (range_message h min_v max_v) (\<lambda>message. throwError m message)
       else ok))"

text \<open>\<^verbatim>\<open>Typso.checkLength\<close> (lines 175 to 179).\<close>

definition length_message :: "host \<Rightarrow> jsval \<Rightarrow> jsval \<Rightarrow> thrown + string" where
  "length_message h minLength maxLength =
     bind_thrown (to_string h minLength) (\<lambda>a.
     bind_thrown (to_string h maxLength) (\<lambda>b.
       Inr (''LengthError: Length should be between '' @ a @ '' and '' @ b)))"

definition checkLength :: "host \<Rightarrow> mode \<Rightarrow> jsval \<Rightarrow> jsval \<Rightarrow> jsval \<Rightarrow> result" where
  "checkLength h m val minLength maxLength =
     eval_then (bind_thrown (get_prop h val ''length'') (\<lambda>len. js_lt h len minLength))
       (\<lambda>below.
     eval_then (if below then Inr True
                else bind_thrown (get_prop h val ''length'') (\<lambda>len. js_gt h len maxLength))
       (\<lambda>outside.
       if outside then
         eval_then (length_message h minLength maxLength) (\<lambda>message. throwError m message)
       else ok))"

subsection \<open>Normalisation\<close>

text \<open>
  \<^verbatim>\<open>normalize\<close> (lines 182 to 190) writes into \<open>data\<close> in place, and the schema may
  hold the very object it writes to. The data object is therefore the one mutable cell of
  a store, and a value of the schema, or of the data, is
  \<^item> \<open>Plain v\<close>: a value that shares nothing with the data object;
  \<^item> \<open>DataRef\<close>: the data object itself;
  \<^item> \<open>ObjN ps (Some c)\<close>: an object with own properties \<open>ps\<close>, which may hold such
    values again, and a prototype \<open>c\<close> of the host;
  \<^item> \<open>ObjN ps None\<close>: an object whose prototype chain leads to the data object, \<open>ps\<close>
    being the properties of the objects before it on the chain, nearest first.
  Only the data object is ever written, so every other object is a value.
\<close>

datatype nval =
    Plain jsval
  | DataRef
  | ObjN "(string \<times> nval) list" "nat option"

text \<open>\<^verbatim>\<open>data[key]\<close>, for the data object with prototype \<open>c\<close> and own properties \<open>data\<close>.\<close>

definition data_get :: "host \<Rightarrow> nat \<Rightarrow> (string \<times> nval) list \<Rightarrow> string \<Rightarrow> nval" where
  "data_get h c data key =
     (case map_of data key of Some v \<Rightarrow> v | None \<Rightarrow> Plain (proto_get h c key))"

text \<open>\<^verbatim>\<open>v[key]\<close> in the store whose data object is \<open>data\<close>.\<close>

fun nget :: "host \<Rightarrow> nat \<Rightarrow> (string \<times> nval) list \<Rightarrow> nval \<Rightarrow> string \<Rightarrow> thrown + nval" where
  "nget h c data (Plain v) key =
     (case get_prop h v key of Inl e \<Rightarrow> Inl e | Inr w \<Rightarrow> Inr (Plain w))"
| "nget h c data DataRef key = Inr (data_get h c data key)"
| "nget h c data (ObjN ps (Some c')) key =
     Inr (case map_of ps key of Some v \<Rightarrow> v | None \<Rightarrow> Plain (proto_get h c' key))"
| "nget h c data (ObjN ps None) key =
     Inr (case map_of ps key of Some v \<Rightarrow> v | None \<Rightarrow> data_get h c data key)"

text \<open>
  \<^verbatim>\<open>data[key] = v\<close>: an own property is replaced where it stands; a new one takes its
  place in the order of \<^verbatim>\<open>Object.keys\<close>: array indices (below \<open>2\<^sup>3\<^sup>2 - 1\<close>) first and
  ascending, then the other keys as they came.
\<close>

definition index_key :: "string \<Rightarrow> nat option" where
  "index_key key =
     (case array_index key of
        Some i \<Rightarrow> if i < 4294967295 then Some i else None
      | None \<Rightarrow> None)"

fun insert_index :: "nat \<Rightarrow> string \<Rightarrow> 'v \<Rightarrow> (string \<times> 'v) list \<Rightarrow> (string \<times> 'v) list" where
  "insert_index i key v [] = [(key, v)]"
| "insert_index i key v ((k, w) # ps) =
     (case index_key k of
        Some j \<Rightarrow> if j < i then (k, w) # insert_index i key v ps else (key, v) # (k, w) # ps
      | None \<Rightarrow> (key, v) # (k, w) # ps)"

definition own_put :: "string \<Rightarrow> 'v \<Rightarrow> (string \<times> 'v) list \<Rightarrow> (string \<times> 'v) list" where
  "own_put key v ps =
     (case map_of ps key of
        Some w \<Rightarrow> AList.update key v ps
      | None \<Rightarrow> (case index_key key of
                  Some i \<Rightarrow> insert_index i key v ps
                | None \<Rightarrow> ps @ [(key, v)]))"

text \<open>
  The schema is an object of its own, given by its own properties, or the data object
  itself. \<^verbatim>\<open>Object.keys(schema)\<close> is taken once, before the loop; \<^verbatim>\<open>schema[key]\<close> is
  read at each step.
\<close>

datatype schema_ref =
    SchemaObj "(string \<times> nval) list"
  | SchemaIsData

definition descriptor_at :: "(string \<times> nval) list \<Rightarrow> string \<Rightarrow> nval" where
  "descriptor_at ps key = (case map_of ps key of Some d \<Rightarrow> d | None \<Rightarrow> Plain Undefined)"

fun schema_keys :: "schema_ref \<Rightarrow> (string \<times> nval) list \<Rightarrow> string list" where
  "schema_keys (SchemaObj ps) data = map fst ps"
| "schema_keys SchemaIsData data = map fst data"

fun schema_get :: "host \<Rightarrow> nat \<Rightarrow> schema_ref \<Rightarrow> (string \<times> nval) list \<Rightarrow> string \<Rightarrow> nval" where
  "schema_get h c (SchemaObj ps) data key = descriptor_at ps key"
| "schema_get h c SchemaIsData data key = data_get h c data key"

text \<open>
  The loop: each step reads \<^verbatim>\<open>schema[key].default\<close> and \<^verbatim>\<open>data[key]\<close>, and writes the
  own property of the data object when the first is defined and the second is not. The
  call returns the data object: its own properties after the loop.
\<close>

fun normalize_keys ::
  "host \<Rightarrow> schema_ref \<Rightarrow> string list \<Rightarrow> nat \<Rightarrow> (string \<times> nval) list
   \<Rightarrow> thrown + (string \<times> nval) list" where
  "normalize_keys h schema [] c data = Inr data"
| "normalize_keys h schema (key # keys) c data =
     bind_thrown (nget h c data (schema_get h c schema data key) ''default'') (\<lambda>defaultValue.
       normalize_keys h schema keys c
         (if data_get h c data key = Plain Undefined \<and> defaultValue \<noteq> Plain Undefined
          then own_put key defaultValue data else data))"

definition normalize ::
  "host \<Rightarrow> schema_ref \<Rightarrow> nat \<Rightarrow> (string \<times> nval) list \<Rightarrow> thrown + (string \<times> nval) list" where
  "normalize h schema c data = normalize_keys h schema (schema_keys schema data) c data"

text \<open>The read of \<^verbatim>\<open>d.default\<close> reaches the data object.\<close>

fun default_from_data :: "nval \<Rightarrow> bool" where
  "default_from_data DataRef = True"
| "default_from_data (ObjN ps None) = (map_of ps ''default'' = None)"
| "default_from_data d = False"

subsection \<open>A sample host\<close>

text \<open>
  A runtime with nothing added to the built-in prototypes, for evaluating the checks on
  concrete inputs: function 1 tests for a number, every other function returns
  \<^verbatim>\<open>undefined\<close>, and each is named \<^verbatim>\<open>f\<close> and takes one parameter; an object is an instance of the constructor whose identifier is its
  prototype's; objects print as \<^verbatim>\<open>[object Object]\<close>; the empty string parses as 0, a
  string of decimal digits as that number, any other string as \<open>NaN\<close>; a number beyond
  the safe integers is printed digit by digit, which no evaluation below reaches.
\<close>

definition sample_host :: host where
  "sample_host =
     \<lparr> call = (\<lambda>f v. if f = 1 then Inr (Bool (typeof v = ''number'')) else Inr Undefined),
       fun_prop =
         (\<lambda>f key. if key = ''name'' then Str ''f''
                   else if key = ''length'' then Num 1 else Undefined),
       proto_get = (\<lambda>c key. Undefined),
       has_instance = (\<lambda>f v. Inr (case v of Obj c ps \<Rightarrow> c = f | _ \<Rightarrow> False)),
       obj_to_primitive = (\<lambda>v. Inr (Str ''[object Object]'')),
       obj_to_string = (\<lambda>v. Inr ''[object Object]''),
       string_to_number =
         (\<lambda>s. if list_all is_digit s then Num (int (parse_nat 0 s)) else NaN),
       big_number_to_string = show_int,
       foreign_forEach = (\<lambda>f v cb. ok) \<rparr>"

subsection \<open>Reading a result\<close>

definition returned :: "result \<Rightarrow> bool" where
  "returned r = (snd r = None)"

definition warnings :: "result \<Rightarrow> string list" where
  "warnings r = fst r"

section \<open>Properties\<close>

subsection \<open>Sequencing\<close>

lemma then_do_ok_left: "then_do ok s = s"
  by (simp add: then_do_def ok_def)

lemma then_do_warned: "then_do ([w], None) s = (w # fst s, snd s)"
  by (simp add: then_do_def)

lemma returned_then_do: "returned (then_do r s) \<longleftrightarrow> returned r \<and> returned s"
  by (cases "snd r") (simp_all add: returned_def then_do_def)

lemma returned_forEach_list:
  "returned (forEach_list cb xs) \<longleftrightarrow> (\<forall>x\<in>set xs. returned (cb x))"
proof (induction xs)
  case Nil
  show ?case by (simp add: returned_def ok_def)
next
  case (Cons x xs)
  then show ?case by (simp add: returned_then_do)
qed

lemma forEach_list_cong:
  "(\<And>x. x \<in> set xs \<Longrightarrow> cb x = cb' x) \<Longrightarrow> forEach_list cb xs = forEach_list cb' xs"
  by (induction xs) simp_all

subsection \<open>The warn-only setter\<close>

text \<open>
  C10. \<^verbatim>\<open>enableWarnings()\<close> with no argument sets \<^verbatim>\<open>logWarnings\<close> to false, whatever
  the mode was before, so that the next reported failure raises.
\<close>

theorem enableWarnings_no_argument:
  "logWarnings (enableWarnings None m) = False
   \<and> throwError (enableWarnings None m) message = ([], Some (Error message))"
  by (simp add: enableWarnings_def throwError_def)

subsection \<open>The strict flag\<close>

lemma throwError_strict: "throwError (m\<lparr>isStrict := s\<rparr>) = throwError m"
  by (rule ext) (simp add: throwError_def)

lemma checkType_strict: "checkType h (m\<lparr>isStrict := s\<rparr>) = checkType h m"
  by (intro ext) (simp add: checkType_def throwError_strict)

lemma checkInstance_strict: "checkInstance h (m\<lparr>isStrict := s\<rparr>) = checkInstance h m"
  by (intro ext) (simp add: checkInstance_def throwError_strict cong: if_cong)

lemma checkArray_strict: "checkArray h (m\<lparr>isStrict := s\<rparr>) = checkArray h m"
  by (intro ext) (simp add: checkArray_def throwError_strict checkType_strict)

lemma checkUnion_strict: "checkUnion (m\<lparr>isStrict := s\<rparr>) = checkUnion m"
  by (intro ext) (simp add: checkUnion_def throwError_strict)

lemma checkDate_strict: "checkDate h (m\<lparr>isStrict := s\<rparr>) = checkDate h m"
  by (intro ext) (simp add: checkDate_def throwError_strict cong: if_cong)

lemma checkCustom_strict: "checkCustom h (m\<lparr>isStrict := s\<rparr>) = checkCustom h m"
  by (intro ext) (simp add: checkCustom_def throwError_strict cong: if_cong)

lemma checkNotNaN_strict: "checkNotNaN (m\<lparr>isStrict := s\<rparr>) = checkNotNaN m"
  by (intro ext) (simp add: checkNotNaN_def throwError_strict)

lemma checkSchemaField_strict:
  "checkSchemaField h (m\<lparr>isStrict := s\<rparr>) = checkSchemaField h m"
  by (intro ext)
     (simp add: checkSchemaField_def checkType_strict checkArray_strict checkCustom_strict
        checkInstance_strict)

lemma checkObject_strict: "checkObject h (m\<lparr>isStrict := s\<rparr>) = checkObject h m"
  by (intro ext) (simp add: checkObject_def throwError_strict checkSchemaField_strict)

lemma checkRange_strict: "checkRange h (m\<lparr>isStrict := s\<rparr>) = checkRange h m"
  by (intro ext) (simp add: checkRange_def throwError_strict cong: if_cong)

lemma checkLength_strict: "checkLength h (m\<lparr>isStrict := s\<rparr>) = checkLength h m"
  by (intro ext) (simp add: checkLength_def throwError_strict cong: if_cong)

text \<open>
  C9. No check reads \<^verbatim>\<open>isStrict\<close>: on every input, each check gives the same warnings
  and the same exception (or none) in two modes that differ only in that flag; and the
  setter of the flag leaves \<^verbatim>\<open>logWarnings\<close> alone.
\<close>

theorem strict_flag_not_enforced:
  "checkType h (m\<lparr>isStrict := s\<rparr>) v k cm = checkType h m v k cm
   \<and> checkInstance h (m\<lparr>isStrict := s\<rparr>) v c cm = checkInstance h m v c cm
   \<and> checkArray h (m\<lparr>isStrict := s\<rparr>) v k cm = checkArray h m v k cm
   \<and> checkUnion (m\<lparr>isStrict := s\<rparr>) v ks cm = checkUnion m v ks cm
   \<and> checkObject h (m\<lparr>isStrict := s\<rparr>) v S = checkObject h m v S
   \<and> checkDate h (m\<lparr>isStrict := s\<rparr>) v = checkDate h m v
   \<and> checkBoolean h (m\<lparr>isStrict := s\<rparr>) v = checkBoolean h m v
   \<and> checkCustom h (m\<lparr>isStrict := s\<rparr>) v p cm = checkCustom h m v p cm
   \<and> checkNotNaN (m\<lparr>isStrict := s\<rparr>) v = checkNotNaN m v
   \<and> checkRange h (m\<lparr>isStrict := s\<rparr>) v lo hi = checkRange h m v lo hi
   \<and> checkLength h (m\<lparr>isStrict := s\<rparr>) v lo hi = checkLength h m v lo hi
   \<and> checkSchemaField h (m\<lparr>isStrict := s\<rparr>) v d = checkSchemaField h m v d
   \<and> logWarnings (enforceStrictMode b m) = logWarnings m"
  by (simp add: checkType_strict checkInstance_strict checkArray_strict checkUnion_strict
      checkObject_strict checkDate_strict checkBoolean_def checkCustom_strict
      checkNotNaN_strict checkRange_strict checkLength_strict checkSchemaField_strict
      enforceStrictMode_def)

theorem strict_flag_not_enforced_witness:
  "checkType sample_host (initial_mode\<lparr>isStrict := False\<rparr>) Null (Str ''string'') None =
     ([], Some (Error ''TypeError: Expected string but received object''))
   \<and> checkObject sample_host (initial_mode\<lparr>isStrict := False\<rparr>) Null [] =
     checkObject sample_host initial_mode Null []"
  using strict_flag_not_enforced [where h = sample_host and m = initial_mode and s = False
      and v = Null and k = "Str ''string''" and cm = None and S = "[]"]
  by (simp add: checkType_def initial_mode_def eval_then_def or_else_def bind_thrown_def
      throwError_def)

subsection \<open>The primitive-kind check\<close>

text \<open>
  C6. In the default mode \<^verbatim>\<open>checkType(v, k)\<close> on a kind name \<open>k\<close> returns exactly when
  \<^verbatim>\<open>typeof v\<close> is \<open>k\<close>; otherwise it raises, and with no custom message the error's
  message names the expected kind and the kind received.
\<close>

theorem checkType_iff_typeof:
  "(\<not> logWarnings m \<longrightarrow> (returned (checkType h m v (Str k) cm) \<longleftrightarrow> typeof v = k))
   \<and> (\<not> logWarnings m \<and> typeof v \<noteq> k \<longrightarrow>
        checkType h m v (Str k) None =
          ([], Some (Error (''TypeError: Expected '' @ k @ '' but received '' @ typeof v))))"
  by (auto simp: checkType_def returned_def ok_def eval_then_def or_else_def bind_thrown_def
      throwError_def split: option.splits)

theorem checkType_iff_typeof_witness:
  "\<not> logWarnings initial_mode \<and> typeof (Num 123) \<noteq> ''string''
   \<and> \<not> returned (checkType sample_host initial_mode (Num 123) (Str ''string'') None)
   \<and> checkType sample_host initial_mode (Num 123) (Str ''string'') None =
       ([], Some (Error ''TypeError: Expected string but received number''))"
  using checkType_iff_typeof [of initial_mode sample_host "Num 123" "''string''" None]
  by (simp add: initial_mode_def returned_def)

subsection \<open>The dispatch on the descriptor\<close>

text \<open>
  C5. \<^verbatim>\<open>_checkSchemaField\<close> routes on the shape of the descriptor: a string goes to the
  primitive-kind check; an array that starts with \<^verbatim>\<open>'array'\<close> goes to the array check
  with its second element as the kind; a function is called as a predicate, and the answer
  does not depend on what \<^verbatim>\<open>instanceof\<close> would say; anything else goes to the
  instance check.
\<close>

theorem checkSchemaField_dispatch:
  "checkSchemaField h m v (Str k) = checkType h m v (Str k) None
   \<and> checkSchemaField h m v (Arr (Str ''array'' # rest)) =
       checkArray h m v (arr_at (Str ''array'' # rest) 1) None
   \<and> checkSchemaField h m v (Fun f) = checkCustom h m v (Fun f) None
   \<and> checkSchemaField (h\<lparr>has_instance := g\<rparr>) m v (Fun f) = checkSchemaField h m v (Fun f)
   \<and> (typeof d \<noteq> ''string'' \<and> \<not> (isArray d \<and> elem d 0 = Str ''array'')
        \<and> typeof d \<noteq> ''function'' \<longrightarrow>
      checkSchemaField h m v d = checkInstance h m v d None)"
  by (simp add: checkSchemaField_def arr_at_def checkCustom_def)

theorem checkSchemaField_dispatch_witness:
  "typeof (Obj 0 []) \<noteq> ''string'' \<and> \<not> (isArray (Obj 0 []) \<and> elem (Obj 0 []) 0 = Str ''array'')
   \<and> typeof (Obj 0 []) \<noteq> ''function''
   \<and> checkSchemaField sample_host initial_mode (Num 1) (Obj 0 []) =
       checkInstance sample_host initial_mode (Num 1) (Obj 0 []) None
   \<and> checkInstance sample_host initial_mode (Num 1) (Obj 0 []) None = ([], Some RuntimeTypeError)"
  using checkSchemaField_dispatch [of sample_host initial_mode "Num 1" _ _ _ _ "Obj 0 []"]
  by (simp add: checkInstance_def eval_then_def)

subsection \<open>The object check\<close>

lemma checkObject_Obj:
  "checkObject h m (Obj c ps) S =
     forEach_list
       (\<lambda>key. eval_then (get_prop h (Obj c ps) key)
                 (\<lambda>val. checkSchemaField h m val (schema_at S key)))
       (map fst S)"
  by (simp add: checkObject_def then_do_ok_left)

text \<open>
  C2. On an object that is neither \<^verbatim>\<open>null\<close> nor an array, \<^verbatim>\<open>checkObject\<close> returns
  without raising exactly when, for every key of the schema, the dispatched check of
  \<^verbatim>\<open>O[key]\<close> against the schema's descriptor returns without raising (in the default
  mode, as in any); and two objects that agree on the keys of the schema get the same
  result, so that properties outside the schema never matter.
\<close>

theorem checkObject_iff_fields:
  "(returned (checkObject h m (Obj c ps) S) \<longleftrightarrow>
      (\<forall>key\<in>set (map fst S). \<exists>val. get_prop h (Obj c ps) key = Inr val
          \<and> returned (checkSchemaField h m val (schema_at S key))))
   \<and> ((\<forall>key\<in>set (map fst S). get_prop h (Obj c ps') key = get_prop h (Obj c ps) key) \<longrightarrow>
        checkObject h m (Obj c ps') S = checkObject h m (Obj c ps) S)"
proof (intro conjI impI)
  show "returned (checkObject h m (Obj c ps) S) \<longleftrightarrow>
      (\<forall>key\<in>set (map fst S). \<exists>val. get_prop h (Obj c ps) key = Inr val
          \<and> returned (checkSchemaField h m val (schema_at S key)))"
    unfolding checkObject_Obj returned_forEach_list
    by (simp add: eval_then_def)
next
  assume agree: "\<forall>key\<in>set (map fst S). get_prop h (Obj c ps') key = get_prop h (Obj c ps) key"
  show "checkObject h m (Obj c ps') S = checkObject h m (Obj c ps) S"
    unfolding checkObject_Obj
    by (rule forEach_list_cong) (use agree in auto)
qed

theorem checkObject_iff_fields_witness:
  "returned (checkObject sample_host initial_mode
      (Obj 0 [(''name'', Str ''Alice''), (''age'', Num 25), (''extra'', Null)])
      [(''name'', Str ''string''), (''age'', Str ''number'')])
   \<and> checkObject sample_host initial_mode
        (Obj 0 [(''name'', Str ''Alice''), (''age'', Num 25), (''extra'', Null)])
        [(''name'', Str ''string''), (''age'', Str ''number'')] =
      checkObject sample_host initial_mode
        (Obj 0 [(''name'', Str ''Alice''), (''age'', Num 25)])
        [(''name'', Str ''string''), (''age'', Str ''number'')]"
  using checkObject_iff_fields [of sample_host initial_mode 0
      "[(''name'', Str ''Alice''), (''age'', Num 25), (''extra'', Null)]"
      "[(''name'', Str ''string''), (''age'', Str ''number'')]"
      "[(''name'', Str ''Alice''), (''age'', Num 25)]"]
  by (simp add: obj_get_def own_get_def schema_at_def checkSchemaField_def checkType_def ok_def
      returned_def)

text \<open>
  C3. The guard of \<^verbatim>\<open>checkObject\<close> rejects arrays and values whose \<^verbatim>\<open>typeof\<close> is not
  \<^verbatim>\<open>'object'\<close>, but \<^verbatim>\<open>typeof null\<close> is \<^verbatim>\<open>'object'\<close>: on \<^verbatim>\<open>null\<close> the call returns
  normally when the schema is empty, and otherwise raises the runtime's \<^verbatim>\<open>TypeError\<close>
  at the first property read, never the error of the guard.
\<close>

theorem checkObject_null_not_rejected:
  "checkObject sample_host initial_mode Null [] = ([], None)
   \<and> checkObject sample_host initial_mode Null [(''a'', Str ''string'')] =
       ([], Some RuntimeTypeError)
   \<and> checkObject sample_host initial_mode (Arr []) [] =
       ([], Some (Error ''TypeError: Expected an object''))
   \<and> checkObject sample_host initial_mode (Num 1) [] =
       ([], Some (Error ''TypeError: Expected an object''))"
  by (simp add: checkObject_def initial_mode_def then_do_def ok_def throwError_def eval_then_def)

theorem checkObject_null_not_rejected_witness:
  "returned (checkObject sample_host initial_mode Null [])
   \<and> snd (checkObject sample_host initial_mode Null [(''a'', Str ''string'')]) \<noteq>
       Some (Error ''TypeError: Expected an object'')"
  using checkObject_null_not_rejected
  by (simp add: returned_def)

subsection \<open>Warn-only mode\<close>

text \<open>
  C1. With \<^verbatim>\<open>logWarnings\<close> set, \<^verbatim>\<open>checkArray(5, 'number')\<close> logs the failure of its
  guard and then raises the runtime's \<^verbatim>\<open>TypeError\<close>, because the call goes on to
  \<^verbatim>\<open>variable.forEach\<close>; a failing \<^verbatim>\<open>checkType\<close> in the same mode logs and returns.
\<close>

theorem checkArray_warn_then_raises:
  "checkArray sample_host (enableWarnings (Some True) initial_mode) (Num 5) (Str ''number'') None
     = ([''TypeError: Expected an array''], Some RuntimeTypeError)
   \<and> checkType sample_host (enableWarnings (Some True) initial_mode) (Num 5) (Str ''string'') None
     = ([''TypeError: Expected string but received number''], None)"
  by (simp add: checkArray_def checkType_def initial_mode_def enableWarnings_def then_do_def ok_def
      throwError_def eval_then_def forEach_def sample_host_def or_else_def bind_thrown_def)

subsection \<open>The array check\<close>

lemma checkType_match: "Str (typeof x) = k \<Longrightarrow> checkType h m x k cm = ([], None)"
  by (simp add: checkType_def ok_def)

lemma checkType_mismatch_raises:
  "\<not> logWarnings m \<Longrightarrow> Str (typeof x) \<noteq> k \<Longrightarrow> \<not> returned (checkType h m x k cm)"
  by (auto simp: checkType_def returned_def eval_then_def throwError_def split: sum.splits)

lemma checkType_warn:
  "logWarnings m \<Longrightarrow>
   checkType h m x (Str kn) cm =
     (if typeof x = kn then []
      else [case cm of
              None \<Rightarrow> ''TypeError: Expected '' @ kn @ '' but received '' @ typeof x
            | Some s \<Rightarrow> if s \<noteq> [] then s
                        else ''TypeError: Expected '' @ kn @ '' but received '' @ typeof x],
      None)"
  by (auto simp: checkType_def ok_def eval_then_def throwError_def or_else_def bind_thrown_def
      split: option.splits)

lemma forEach_list_default:
  "\<not> logWarnings m \<Longrightarrow>
   forEach_list (\<lambda>item. checkType h m item k cm) xs =
     (case find (\<lambda>x. Str (typeof x) \<noteq> k) xs of
        None \<Rightarrow> ([], None)
      | Some x \<Rightarrow> checkType h m x k cm)"
proof (induction xs)
  case Nil
  show ?case by (simp add: ok_def)
next
  case (Cons x xs)
  show ?case
  proof (cases "Str (typeof x) = k")
    case True
    then have "checkType h m x k cm = ok" by (simp add: checkType_match ok_def)
    with True Cons show ?thesis by (simp add: then_do_ok_left)
  next
    case False
    with Cons.prems have "\<not> returned (checkType h m x k cm)"
      by (rule checkType_mismatch_raises)
    then obtain e where "snd (checkType h m x k cm) = Some e"
      by (auto simp: returned_def)
    then have "then_do (checkType h m x k cm) (forEach_list (\<lambda>item. checkType h m item k cm) xs)
                 = checkType h m x k cm"
      by (simp add: then_do_def)
    with False show ?thesis by simp
  qed
qed

lemma forEach_list_warn:
  "(\<And>x. x \<in> set xs \<Longrightarrow> snd (cb x) = None) \<Longrightarrow>
   forEach_list cb xs = (concat (map (\<lambda>x. fst (cb x)) xs), None)"
  by (induction xs) (simp_all add: ok_def then_do_def)

text \<open>
  C4. \<^verbatim>\<open>checkArray\<close> reports \<^verbatim>\<open>Expected an array\<close> on a value that is no array
  (raising it in the default mode, logging it first in warn-only mode). On an array, in
  the default mode, the result is that of \<^verbatim>\<open>checkType\<close> on the first element whose
  \<^verbatim>\<open>typeof\<close> differs from the kind, which raises, and no later element is looked at;
  in warn-only mode the call returns and its log is, element by element and in order, the
  log of \<^verbatim>\<open>checkType\<close> on that element: one line for each element of the wrong kind.
\<close>

theorem checkArray_elements:
  "(\<not> isArray v \<and> \<not> logWarnings m \<longrightarrow>
      checkArray h m v k cm = ([], Some (Error ''TypeError: Expected an array'')))
   \<and> (\<not> isArray v \<and> logWarnings m \<longrightarrow>
      (\<exists>rest. warnings (checkArray h m v k cm) = ''TypeError: Expected an array'' # rest))
   \<and> (\<not> logWarnings m \<longrightarrow>
      checkArray h m (Arr xs) k cm =
        (case find (\<lambda>x. Str (typeof x) \<noteq> k) xs of
           None \<Rightarrow> ([], None)
         | Some x \<Rightarrow> checkType h m x k cm)
      \<and> (\<forall>x. Str (typeof x) \<noteq> k \<longrightarrow> \<not> returned (checkType h m x k cm)))
   \<and> (logWarnings m \<longrightarrow>
      checkArray h m (Arr xs) (Str kn) cm =
        (concat (map (\<lambda>x. warnings (checkType h m x (Str kn) cm)) xs), None)
      \<and> (\<forall>x. checkType h m x (Str kn) cm =
            (if typeof x = kn then []
             else [case cm of
                     None \<Rightarrow> ''TypeError: Expected '' @ kn @ '' but received '' @ typeof x
                   | Some s \<Rightarrow> if s \<noteq> [] then s
                               else ''TypeError: Expected '' @ kn @ '' but received '' @ typeof x],
             None)))"
proof (intro conjI impI allI)
  assume "\<not> isArray v \<and> \<not> logWarnings m"
  then show "checkArray h m v k cm = ([], Some (Error ''TypeError: Expected an array''))"
    by (simp add: checkArray_def throwError_def then_do_def)
next
  assume "\<not> isArray v \<and> logWarnings m"
  then show "\<exists>rest. warnings (checkArray h m v k cm) = ''TypeError: Expected an array'' # rest"
    by (simp add: checkArray_def throwError_def then_do_warned warnings_def)
next
  assume "\<not> logWarnings m"
  then show "checkArray h m (Arr xs) k cm =
        (case find (\<lambda>x. Str (typeof x) \<noteq> k) xs of
           None \<Rightarrow> ([], None)
         | Some x \<Rightarrow> checkType h m x k cm)"
    by (simp add: checkArray_def then_do_ok_left forEach_def forEach_list_default)
next
  fix x
  assume "\<not> logWarnings m" and "Str (typeof x) \<noteq> k"
  then show "\<not> returned (checkType h m x k cm)"
    by (rule checkType_mismatch_raises)
next
  assume warn: "logWarnings m"
  have "forEach_list (\<lambda>item. checkType h m item (Str kn) cm) xs =
          (concat (map (\<lambda>x. fst (checkType h m x (Str kn) cm)) xs), None)"
    by (rule forEach_list_warn) (simp add: checkType_warn [OF warn])
  then show "checkArray h m (Arr xs) (Str kn) cm =
        (concat (map (\<lambda>x. warnings (checkType h m x (Str kn) cm)) xs), None)"
    by (simp add: checkArray_def then_do_ok_left forEach_def warnings_def)
next
  fix x
  assume "logWarnings m"
  then show "checkType h m x (Str kn) cm =
            (if typeof x = kn then []
             else [case cm of
                     None \<Rightarrow> ''TypeError: Expected '' @ kn @ '' but received '' @ typeof x
                   | Some s \<Rightarrow> if s \<noteq> [] then s
                               else ''TypeError: Expected '' @ kn @ '' but received '' @ typeof x],
             None)"
    by (rule checkType_warn)
qed

theorem checkArray_elements_witness:
  "checkArray sample_host initial_mode (Str ''abc'') (Str ''number'') None =
     ([], Some (Error ''TypeError: Expected an array''))
   \<and> checkArray sample_host initial_mode (Arr [Num 1, Str ''2'', Bool True]) (Str ''number'') None =
     ([], Some (Error ''TypeError: Expected number but received string''))
   \<and> checkArray sample_host (enableWarnings (Some True) initial_mode)
       (Arr [Num 1, Str ''2'', Bool True]) (Str ''number'') None =
     ([''TypeError: Expected number but received string'',
       ''TypeError: Expected number but received boolean''], None)"
  using checkArray_elements [where v = "Str ''abc''" and m = initial_mode and h = sample_host
      and k = "Str ''number''" and cm = None and xs = "[Num 1, Str ''2'', Bool True]"
      and kn = "''number''"]
    checkArray_elements [where v = "Str ''abc''" and m = "enableWarnings (Some True) initial_mode"
      and h = sample_host and k = "Str ''number''" and cm = None
      and xs = "[Num 1, Str ''2'', Bool True]" and kn = "''number''"]
  by (simp add: initial_mode_def enableWarnings_def warnings_def checkType_def eval_then_def
      or_else_def bind_thrown_def throwError_def ok_def)


subsection \<open>The length check\<close>

lemma js_lt_Num: "js_lt h (Num a) (Num b) = Inr (a < b)"
  by (simp add: js_lt_def to_primitive_def)

lemma js_gt_Num: "js_gt h (Num a) (Num b) = Inr (b < a)"
  by (simp add: js_gt_def to_primitive_def)

lemma js_lt_Undefined: "js_lt h Undefined (Num b) = Inr False"
  by (simp add: js_lt_def to_primitive_def)

lemma js_gt_Undefined: "js_gt h Undefined (Num b) = Inr False"
  by (simp add: js_gt_def to_primitive_def)

lemma length_message_Num:
  "length_message h (Num lo) (Num hi) =
     Inr (''LengthError: Length should be between '' @ number_to_string h lo @ '' and ''
          @ number_to_string h hi)"
  by (simp add: length_message_def bind_thrown_def)

lemma number_to_string_samples:
  "number_to_string h 1 = ''1''" "number_to_string h 10 = ''10''"
  by (simp_all add: number_to_string_def safe_integer_def show_int_def show_nat.simps [of 1]
      show_nat.simps [of 10] digit_char_def)

lemma proto_get_sample_host: "proto_get sample_host c key = Undefined"
  by (simp add: sample_host_def)

text \<open>
  C7, as the code has it. For every value whose \<^verbatim>\<open>length\<close> property is an integer, as
  that of a string or an array always is, and integer bounds, \<^verbatim>\<open>checkLength\<close> reports the
  length error exactly when the length is below \<^verbatim>\<open>minLength\<close> or above \<^verbatim>\<open>maxLength\<close>.
  On \<^verbatim>\<open>null\<close> and \<^verbatim>\<open>undefined\<close> the read of \<^verbatim>\<open>.length\<close> raises the runtime's
  \<^verbatim>\<open>TypeError\<close>. On any other value whose \<^verbatim>\<open>length\<close> is \<^verbatim>\<open>undefined\<close> both comparisons
  are false and the call returns, reporting nothing.
\<close>

theorem checkLength_amended:
  "(get_prop h v ''length'' = Inr (Num n) \<longrightarrow>
      checkLength h m v (Num lo) (Num hi) =
        (if n < lo \<or> hi < n
         then throwError m (''LengthError: Length should be between '' @ number_to_string h lo
                @ '' and '' @ number_to_string h hi)
         else ([], None)))
   \<and> get_prop h (Str s) ''length'' = Inr (Num (int (length s)))
   \<and> get_prop h (Arr xs) ''length'' = Inr (Num (int (length xs)))
   \<and> checkLength h m Null minLength maxLength = ([], Some RuntimeTypeError)
   \<and> checkLength h m Undefined minLength maxLength = ([], Some RuntimeTypeError)
   \<and> (get_prop h w ''length'' = Inr Undefined \<longrightarrow>
        checkLength h m w (Num lo) (Num hi) = ([], None))"
proof (intro conjI impI)
  assume "get_prop h v ''length'' = Inr (Num n)"
  then show "checkLength h m v (Num lo) (Num hi) =
        (if n < lo \<or> hi < n
         then throwError m (''LengthError: Length should be between '' @ number_to_string h lo
                @ '' and '' @ number_to_string h hi)
         else ([], None))"
    by (simp add: checkLength_def bind_thrown_def eval_then_def js_lt_Num js_gt_Num
        length_message_Num ok_def)
next
  show "get_prop h (Str s) ''length'' = Inr (Num (int (length s)))" by simp
  show "get_prop h (Arr xs) ''length'' = Inr (Num (int (length xs)))" by simp
  show "checkLength h m Null minLength maxLength = ([], Some RuntimeTypeError)"
    by (simp add: checkLength_def bind_thrown_def eval_then_def)
  show "checkLength h m Undefined minLength maxLength = ([], Some RuntimeTypeError)"
    by (simp add: checkLength_def bind_thrown_def eval_then_def)
next
  assume "get_prop h w ''length'' = Inr Undefined"
  then show "checkLength h m w (Num lo) (Num hi) = ([], None)"
    by (simp add: checkLength_def bind_thrown_def eval_then_def js_lt_Undefined js_gt_Undefined
        ok_def)
qed

theorem checkLength_amended_witness:
  "get_prop sample_host (Bool True) ''length'' = Inr Undefined
   \<and> checkLength sample_host initial_mode (Bool True) (Num 1) (Num 10) = ([], None)
   \<and> get_prop sample_host (Fun 0) ''length'' = Inr (Num 1)
   \<and> checkLength sample_host initial_mode (Fun 0) (Num 1) (Num 10) = ([], None)
   \<and> get_prop sample_host (Obj 0 [(''length'', Num 11)]) ''length'' = Inr (Num 11)
   \<and> checkLength sample_host initial_mode (Obj 0 [(''length'', Num 11)]) (Num 1) (Num 10) =
       ([], Some (Error ''LengthError: Length should be between 1 and 10''))"
proof -
  have none: "get_prop sample_host (Bool True) ''length'' = Inr Undefined"
    by (simp add: proto_get_sample_host)
  have one: "get_prop sample_host (Fun 0) ''length'' = Inr (Num 1)"
    by (simp add: sample_host_def)
  have eleven: "get_prop sample_host (Obj 0 [(''length'', Num 11)]) ''length'' = Inr (Num 11)"
    by (simp add: obj_get_def own_get_def)
  from checkLength_amended [where h = sample_host and m = initial_mode and lo = 1 and hi = 10
      and v = "Obj 0 [(''length'', Num 11)]" and n = 11 and w = "Bool True"]
    checkLength_amended [where h = sample_host and m = initial_mode and lo = 1 and hi = 10
      and v = "Fun 0" and n = 1 and w = "Bool True"]
    none one eleven
  show ?thesis
    by (simp add: initial_mode_def throwError_def number_to_string_samples)
qed

text \<open>
  C7, as stated, fails: a number has no length, and \<^verbatim>\<open>checkLength(42, 1, 10)\<close> returns
  normally in the default mode.
\<close>

theorem checkLength_no_length_returns:
  "get_prop sample_host (Num 42) ''length'' = Inr Undefined
   \<and> returned (checkLength sample_host initial_mode (Num 42) (Num 1) (Num 10))"
  by (simp add: proto_get_sample_host checkLength_def bind_thrown_def eval_then_def
      js_lt_Undefined js_gt_Undefined ok_def returned_def)

subsection \<open>Normalisation\<close>

lemma map_of_insert_index:
  "map_of ps key = None \<Longrightarrow>
   map_of (insert_index i key v ps) k = (if k = key then Some v else map_of ps k)"
proof (induction ps)
  case Nil
  show ?case by simp
next
  case (Cons p ps)
  obtain a b where p: "p = (a, b)" by (cases p)
  from Cons.prems p have "a \<noteq> key" and rest: "map_of ps key = None"
    by (auto split: if_splits)
  with Cons.IH [OF rest] p show ?case
    by (auto split: option.splits)
qed

lemma map_of_snoc:
  "map_of ps key = None \<Longrightarrow>
   map_of (ps @ [(key, v)]) k = (if k = key then Some v else map_of ps k)"
  by (induction ps) (auto split: if_splits)

lemma map_of_own_put: "map_of (own_put key v ps) k = (if k = key then Some v else map_of ps k)"
proof (cases "map_of ps key")
  case None
  then show ?thesis
    by (cases "index_key key")
       (simp_all add: own_put_def map_of_insert_index map_of_snoc del: map_of_append)
next
  case (Some w)
  then show ?thesis by (simp add: own_put_def update_conv')
qed


lemma data_get_own_put:
  "data_get h c (own_put key v data) k = (if k = key then v else data_get h c data k)"
  by (simp add: data_get_def map_of_own_put)

lemma nget_default_fixed:
  "\<not> default_from_data d \<Longrightarrow> nget h c data d ''default'' = nget h c data' d ''default''"
  by (cases d rule: default_from_data.cases) (auto split: option.splits)

lemma normalize_keys_keeps_defined:
  "normalize_keys h S ks c data = Inr data' \<Longrightarrow> data_get h c data k \<noteq> Plain Undefined
   \<Longrightarrow> data_get h c data' k \<noteq> Plain Undefined"
proof (induction ks arbitrary: data)
  case Nil
  then show ?case by simp
next
  case (Cons key ks)
  from Cons.prems(1) obtain d where
    d: "nget h c data (schema_get h c S data key) ''default'' = Inr d"
    by (auto simp: bind_thrown_def split: sum.splits)
  let ?next = "if data_get h c data key = Plain Undefined \<and> d \<noteq> Plain Undefined
               then own_put key d data else data"
  from Cons.prems(1) d have rest: "normalize_keys h S ks c ?next = Inr data'"
    by (simp add: bind_thrown_def)
  have "data_get h c ?next k \<noteq> Plain Undefined"
    using Cons.prems(2) by (auto simp: data_get_own_put)
  with rest show ?case by (rule Cons.IH)
qed

lemma normalize_keys_fills:
  "normalize_keys h (SchemaObj ps) ks c data = Inr data' \<Longrightarrow> key \<in> set ks \<Longrightarrow>
   \<forall>k\<in>set ks. \<not> default_from_data (descriptor_at ps k) \<Longrightarrow>
   \<exists>d. nget h c data' (descriptor_at ps key) ''default'' = Inr d
       \<and> (d \<noteq> Plain Undefined \<longrightarrow> data_get h c data' key \<noteq> Plain Undefined)"
proof (induction ks arbitrary: data)
  case Nil
  then show ?case by simp
next
  case (Cons k ks)
  from Cons.prems(1) obtain d where
    d: "nget h c data (descriptor_at ps k) ''default'' = Inr d"
    by (auto simp: bind_thrown_def split: sum.splits)
  let ?next = "if data_get h c data k = Plain Undefined \<and> d \<noteq> Plain Undefined
               then own_put k d data else data"
  from Cons.prems(1) d have rest: "normalize_keys h (SchemaObj ps) ks c ?next = Inr data'"
    by (simp add: bind_thrown_def)
  show ?case
  proof (cases "key = k")
    case True
    from Cons.prems(3) have "\<not> default_from_data (descriptor_at ps k)" by simp
    then have "nget h c data' (descriptor_at ps k) ''default'' =
               nget h c data (descriptor_at ps k) ''default''"
      by (rule nget_default_fixed)
    with d have d': "nget h c data' (descriptor_at ps k) ''default'' = Inr d" by simp
    have "d \<noteq> Plain Undefined \<Longrightarrow> data_get h c ?next k \<noteq> Plain Undefined"
      by (auto simp: data_get_own_put)
    then have "d \<noteq> Plain Undefined \<Longrightarrow> data_get h c data' k \<noteq> Plain Undefined"
      using rest by (rule normalize_keys_keeps_defined [rotated])
    with d' True show ?thesis by simp
  next
    case False
    with Cons.prems(2) have "key \<in> set ks" by simp
    moreover from Cons.prems(3) have "\<forall>k\<in>set ks. \<not> default_from_data (descriptor_at ps k)"
      by simp
    ultimately show ?thesis using rest Cons.IH by blast
  qed
qed

lemma normalize_keys_noop:
  "(\<And>key. key \<in> set ks \<Longrightarrow>
       \<exists>d. nget h c data (schema_get h c S data key) ''default'' = Inr d
          \<and> (d \<noteq> Plain Undefined \<longrightarrow> data_get h c data key \<noteq> Plain Undefined))
   \<Longrightarrow> normalize_keys h S ks c data = Inr data"
proof (induction ks)
  case Nil
  show ?case by simp
next
  case (Cons k ks)
  from Cons.prems [of k] obtain d where
    d: "nget h c data (schema_get h c S data k) ''default'' = Inr d"
    and filled: "d \<noteq> Plain Undefined \<longrightarrow> data_get h c data k \<noteq> Plain Undefined"
    by auto
  have "normalize_keys h S ks c data = Inr data"
    by (rule Cons.IH) (simp add: Cons.prems)
  with d filled show ?case
    by (auto simp: bind_thrown_def)
qed

text \<open>When the schema is the data object, no step writes.\<close>

lemma normalize_keys_self:
  "set ks \<subseteq> fst ` set data \<Longrightarrow> normalize_keys h SchemaIsData ks c data = Inr data'
   \<Longrightarrow> data' = data"
proof (induction ks)
  case Nil
  then show ?case by simp
next
  case (Cons k ks)
  from Cons.prems(1) have "k \<in> fst ` set data" by simp
  then obtain v where v: "map_of data k = Some v"
    by (cases "map_of data k") (simp_all add: map_of_eq_None_iff)
  then have get: "data_get h c data k = v" by (simp add: data_get_def)
  from Cons.prems(2) get obtain d where
    d: "nget h c data v ''default'' = Inr d"
    by (cases "nget h c data v ''default''") (simp_all add: bind_thrown_def)
  have "v \<noteq> Plain Undefined"
  proof
    assume "v = Plain Undefined"
    with d show False by simp
  qed
  with Cons.prems(2) d get have "normalize_keys h SchemaIsData ks c data = Inr data'"
    by (simp add: bind_thrown_def)
  moreover from Cons.prems(1) have "set ks \<subseteq> fst ` set data" by simp
  ultimately show ?case by (rule Cons.IH [rotated])
qed

text \<open>
  C8, as the code has it. Normalising the result of \<^verbatim>\<open>normalize(S, O)\<close> against the same
  schema gives that result again (and when the first pass raises, so does the
  composition, with the same exception), provided no descriptor of \<open>S\<close> takes its
  \<^verbatim>\<open>default\<close> from \<open>O\<close>: no \<^verbatim>\<open>S[key]\<close> is \<open>O\<close> itself or an object that inherits
  \<^verbatim>\<open>default\<close> from \<open>O\<close>. When the schema is the data object itself, no step writes, and
  the same holds with no proviso.
\<close>

theorem normalize_idempotent_unaliased:
  "((\<forall>key\<in>set (map fst ps). \<not> default_from_data (descriptor_at ps key)) \<longrightarrow>
      bind_thrown (normalize h (SchemaObj ps) c data) (normalize h (SchemaObj ps) c) =
        normalize h (SchemaObj ps) c data)
   \<and> bind_thrown (normalize h SchemaIsData c data) (normalize h SchemaIsData c) =
        normalize h SchemaIsData c data"
proof (intro conjI impI)
  assume unaliased: "\<forall>key\<in>set (map fst ps). \<not> default_from_data (descriptor_at ps key)"
  show "bind_thrown (normalize h (SchemaObj ps) c data) (normalize h (SchemaObj ps) c) =
        normalize h (SchemaObj ps) c data"
  proof (cases "normalize h (SchemaObj ps) c data")
    case (Inl e)
    then show ?thesis by (simp add: bind_thrown_def)
  next
    case (Inr data')
    then have first: "normalize_keys h (SchemaObj ps) (map fst ps) c data = Inr data'"
      by (simp add: normalize_def)
    have "normalize_keys h (SchemaObj ps) (map fst ps) c data' = Inr data'"
    proof (rule normalize_keys_noop)
      fix key
      assume "key \<in> set (map fst ps)"
      with first unaliased
      show "\<exists>d. nget h c data' (schema_get h c (SchemaObj ps) data' key) ''default'' = Inr d
               \<and> (d \<noteq> Plain Undefined \<longrightarrow> data_get h c data' key \<noteq> Plain Undefined)"
        using normalize_keys_fills [of h ps "map fst ps" c data data' key] by simp
    qed
    with Inr show ?thesis by (simp add: bind_thrown_def normalize_def)
  qed
next
  show "bind_thrown (normalize h SchemaIsData c data) (normalize h SchemaIsData c) =
        normalize h SchemaIsData c data"
  proof (cases "normalize h SchemaIsData c data")
    case (Inl e)
    then show ?thesis by (simp add: bind_thrown_def)
  next
    case (Inr data')
    then have "normalize_keys h SchemaIsData (map fst data) c data = Inr data'"
      by (simp add: normalize_def)
    then have "data' = data"
      by (rule normalize_keys_self [rotated]) simp
    with Inr show ?thesis by (simp add: bind_thrown_def)
  qed
qed


theorem normalize_idempotent_unaliased_witness:
  "\<not> default_from_data (Plain (Obj 0 [(''type'', Str ''string''), (''default'', Str ''Anonymous'')]))
   \<and> \<not> default_from_data (Plain (Obj 0 [(''type'', Str ''number''), (''default'', Num 18)]))
   \<and> normalize sample_host
        (SchemaObj
          [(''name'', Plain (Obj 0 [(''type'', Str ''string''), (''default'', Str ''Anonymous'')])),
           (''age'', Plain (Obj 0 [(''type'', Str ''number''), (''default'', Num 18)]))])
        0 [(''email'', Plain (Str ''user@example.com''))] =
       Inr [(''email'', Plain (Str ''user@example.com'')), (''name'', Plain (Str ''Anonymous'')),
            (''age'', Plain (Num 18))]
   \<and> normalize sample_host
        (SchemaObj
          [(''name'', Plain (Obj 0 [(''type'', Str ''string''), (''default'', Str ''Anonymous'')])),
           (''age'', Plain (Obj 0 [(''type'', Str ''number''), (''default'', Num 18)]))])
        0 [(''email'', Plain (Str ''user@example.com'')), (''name'', Plain (Str ''Anonymous'')),
           (''age'', Plain (Num 18))] =
       Inr [(''email'', Plain (Str ''user@example.com'')), (''name'', Plain (Str ''Anonymous'')),
            (''age'', Plain (Num 18))]"
proof -
  let ?ps = "[(''name'', Plain (Obj 0 [(''type'', Str ''string''), (''default'', Str ''Anonymous'')])),
              (''age'', Plain (Obj 0 [(''type'', Str ''number''), (''default'', Num 18)]))]"
  let ?data = "[(''email'', Plain (Str ''user@example.com''))]"
  have unaliased: "\<forall>key\<in>set (map fst ?ps). \<not> default_from_data (descriptor_at ?ps key)"
    by (simp add: descriptor_at_def)
  have first: "normalize sample_host (SchemaObj ?ps) 0 ?data =
      Inr [(''email'', Plain (Str ''user@example.com'')), (''name'', Plain (Str ''Anonymous'')),
           (''age'', Plain (Num 18))]"
    by (simp add: normalize_def bind_thrown_def descriptor_at_def data_get_def obj_get_def
        own_get_def own_put_def index_key_def array_index_def is_digit_def proto_get_sample_host)
  from normalize_idempotent_unaliased [of ?ps sample_host 0 ?data] unaliased first
  show ?thesis by (simp add: bind_thrown_def)
qed

text \<open>
  C8, as stated, fails: with \<^verbatim>\<open>O = {}\<close> and \<^verbatim>\<open>S = {k: O, default: {default: 1}}\<close> the
  first pass writes \<^verbatim>\<open>O.default = 1\<close>, after which \<^verbatim>\<open>S.k.default\<close> is 1 and the second
  pass writes \<^verbatim>\<open>O.k = 1\<close>.
\<close>

theorem normalize_aliased_not_idempotent:
  "normalize sample_host
      (SchemaObj [(''k'', DataRef), (''default'', Plain (Obj 0 [(''default'', Num 1)]))]) 0 [] =
     Inr [(''default'', Plain (Num 1))]
   \<and> normalize sample_host
      (SchemaObj [(''k'', DataRef), (''default'', Plain (Obj 0 [(''default'', Num 1)]))]) 0
      [(''default'', Plain (Num 1))] =
     Inr [(''default'', Plain (Num 1)), (''k'', Plain (Num 1))]
   \<and> bind_thrown
        (normalize sample_host
          (SchemaObj [(''k'', DataRef), (''default'', Plain (Obj 0 [(''default'', Num 1)]))]) 0 [])
        (normalize sample_host
          (SchemaObj [(''k'', DataRef), (''default'', Plain (Obj 0 [(''default'', Num 1)]))]) 0) \<noteq>
       normalize sample_host
          (SchemaObj [(''k'', DataRef), (''default'', Plain (Obj 0 [(''default'', Num 1)]))]) 0 []"
proof -
  let ?S = "SchemaObj [(''k'', DataRef), (''default'', Plain (Obj 0 [(''default'', Num 1)]))]"
  have first: "normalize sample_host ?S 0 [] = Inr [(''default'', Plain (Num 1))]"
    by (simp add: normalize_def bind_thrown_def descriptor_at_def data_get_def obj_get_def
        own_get_def own_put_def index_key_def array_index_def is_digit_def proto_get_sample_host)
  have second: "normalize sample_host ?S 0 [(''default'', Plain (Num 1))] =
      Inr [(''default'', Plain (Num 1)), (''k'', Plain (Num 1))]"
    by (simp add: normalize_def bind_thrown_def descriptor_at_def data_get_def obj_get_def
        own_get_def own_put_def index_key_def array_index_def is_digit_def proto_get_sample_host)
  from first second show ?thesis by (simp add: bind_thrown_def)
qed

end
